theory Spec2Isabelle
  imports Main
begin

section \<open>The token validation gate of the ProGear Sales MCP server\<close>

text \<open>
  The server module reads its configuration once, when it is loaded, and protects every
  tool endpoint with the Express middleware \<open>validateToken\<close>. This theory embeds the
  module's load-time configuration and the middleware, and proves the properties of the
  gate. The cryptography is the \<open>jose\<close> library's (\<open>createRemoteJWKSet\<close>,
  \<open>jwtVerify\<close>): the library is not part of the repository, so the verifier is a
  parameter of the middleware. The properties of the gate's own branches hold for any
  verifier; the properties that speak of signatures, issuers, audiences and expiry are
  proved for the library's verification as the spec describes it, at a moment of the
  world (the clock, the tokens, the published keys).
\<close>

subsection \<open>JavaScript strings and arrays\<close>

text \<open>\<open>s.startsWith(p)\<close>.\<close>

definition startsWith :: "string \<Rightarrow> string \<Rightarrow> bool" where
  "startsWith s p = (take (length p) s = p)"

text \<open>
  \<open>s.split(c)\<close> for a one-character separator: the pieces between the occurrences of
  \<open>c\<close>, empty pieces included; the empty string splits into one empty piece.
\<close>

fun split :: "string \<Rightarrow> char \<Rightarrow> string list" where
  "split [] c = [[]]"
| "split (x # xs) c =
     (if x = c then [] # split xs c
      else (case split xs c of
              [] \<Rightarrow> [[x]]
            | w # ws \<Rightarrow> (x # w) # ws))"

text \<open>\<open>xs[i]\<close>: \<open>undefined\<close> (here \<open>None\<close>) out of range.\<close>

fun index :: "'a list \<Rightarrow> nat \<Rightarrow> 'a option" where
  "index [] i = None"
| "index (x # xs) 0 = Some x"
| "index (x # xs) (Suc i) = index xs i"

subsection \<open>The process environment and the module's configuration\<close>

text \<open>\<open>process.env\<close>: variable names with their values.\<close>

type_synonym process_env = "(string \<times> string) list"

text \<open>\<open>process.env.NAME || ''\<close>: an unset variable and an empty one both give \<open>''\<close>.\<close>

definition env_or_empty :: "process_env \<Rightarrow> string \<Rightarrow> string" where
  "env_or_empty env name = (case map_of env name of None \<Rightarrow> [] | Some v \<Rightarrow> v)"

text \<open>
  The value of \<open>createRemoteJWKSet(new URL(u))\<close>: a resolver bound to the address \<open>u\<close>.
  Which keys the address serves, and when the library fetches them, is the library's and
  the network's business; it is part of the verifier below.
\<close>

datatype remote_jwks = RemoteJWKSet string

text \<open>The constants and the variable \<open>jwks\<close> of the module.\<close>

record server =
  OKTA_ISSUER :: string
  OKTA_AUDIENCE :: string
  jwks :: "remote_jwks option"

datatype load_error = InvalidURL string

text \<open>
  Loading the module. \<open>new URL\<close> throws on a string that is not a URL, and then the
  module does not load; which strings are URLs is the parameter \<open>url_ok\<close>.
\<close>

definition module_init :: "(string \<Rightarrow> bool) \<Rightarrow> process_env \<Rightarrow> load_error + server" where
  "module_init url_ok env =
     (let issuer = env_or_empty env ''OKTA_ISSUER'';
          audience = env_or_empty env ''OKTA_CUSTOM_AUTH_SERVER_AUDIENCE''
      in if issuer \<noteq> [] then
           (if url_ok (issuer @ ''/v1/keys'')
            then Inr \<lparr>OKTA_ISSUER = issuer, OKTA_AUDIENCE = audience,
                      jwks = Some (RemoteJWKSet (issuer @ ''/v1/keys''))\<rparr>
            else Inl (InvalidURL (issuer @ ''/v1/keys'')))
         else Inr \<lparr>OKTA_ISSUER = issuer, OKTA_AUDIENCE = audience, jwks = None\<rparr>)"

subsection \<open>The verifier\<close>

text \<open>The claim set of a verified token; the gate reads \<open>sub\<close> only.\<close>

record jwt_payload =
  iss :: "string option"
  sub :: "string option"
  aud :: "string list option"
  nbf :: "nat option"
  exp :: "nat option"

text \<open>The options the gate passes to \<open>jwtVerify\<close>.\<close>

record verify_options =
  issuer :: string
  audience :: string

text \<open>
  What \<open>jwtVerify\<close> throws: a token that is not a compact JWS, no key or no answer from
  the key endpoint, a signature that does not verify, a claim (\<open>iss\<close>, \<open>aud\<close>) that does
  not have the expected value, an expired token, anything else.
\<close>

datatype verify_error =
    JWSInvalid
  | JWKSNoMatchingKey
  | JWKSFetchFailed
  | JWSSignatureVerificationFailed
  | JWTClaimValidationFailed string
  | JWTExpired
  | OtherError string

text \<open>
  A verifier is \<open>jwtVerify\<close> at one moment: what it answers for a token, a resolver
  and the options then. The clock and the published keys belong to the moment, so two
  validations at different moments are validations with two verifiers.
\<close>

type_synonym verifier =
  "string \<Rightarrow> remote_jwks \<Rightarrow> verify_options \<Rightarrow> verify_error + jwt_payload"

subsection \<open>Requests, replies and the console\<close>

text \<open>
  Of a request, the gate reads the \<open>Authorization\<close> header and writes the property
  \<open>user\<close>.
\<close>

record request =
  authorization :: "string option"
  user :: "jwt_payload option"

text \<open>\<open>res.status(n).json({ error: msg })\<close> sends the status and the body.\<close>

datatype json_body = ErrorBody string

text \<open>
  What the gate does with a request: it calls \<open>next()\<close>, and the downstream handler
  runs on the request as the gate leaves it; or it answers itself and no handler runs; or
  it throws (a method call on \<open>undefined\<close>).
\<close>

datatype reply =
    Next request
  | Respond nat json_body
  | TypeError

datatype log_line =
    ConsoleLog string
  | ConsoleLogSub string "string option"
  | ConsoleError string verify_error

record gate_result =
  reply :: reply
  console :: "log_line list"
  server_after :: server

subsection \<open>The middleware\<close>

definition validateToken ::
  "verifier \<Rightarrow> process_env \<Rightarrow> server \<Rightarrow> request \<Rightarrow> gate_result" where
  "validateToken jwtVerify env srv req =
     (let authHeader = authorization req;
          noBearer = (case authHeader of
                        None \<Rightarrow> True
                      | Some h \<Rightarrow> (if h = [] then True else \<not> startsWith h ''Bearer ''))
      in if noBearer then
           (if map_of env ''NODE_ENV'' = Some ''development''
            then \<lparr>reply = Next req,
                  console = [ConsoleLog ''[MCP] Demo mode - skipping token validation''],
                  server_after = srv\<rparr>
            else \<lparr>reply = Respond 401 (ErrorBody ''Missing authorization header''),
                  console = [], server_after = srv\<rparr>)
         else
           (case index (split (case authHeader of None \<Rightarrow> [] | Some h \<Rightarrow> h) CHR '' '') 1 of
              None \<Rightarrow> \<lparr>reply = TypeError, console = [], server_after = srv\<rparr>
            | Some token \<Rightarrow>
                if startsWith token ''demo-token''
                then \<lparr>reply = Next req,
                      console = [ConsoleLog ''[MCP] Demo token accepted''],
                      server_after = srv\<rparr>
                else
                  (case jwks srv of
                     None \<Rightarrow>
                       \<lparr>reply = Next req,
                        console = [ConsoleLog ''[MCP] No JWKS configured, accepting token''],
                        server_after = srv\<rparr>
                   | Some keys \<Rightarrow>
                       (case jwtVerify token keys
                               \<lparr>issuer = OKTA_ISSUER srv, audience = OKTA_AUDIENCE srv\<rparr> of
                          Inr payload \<Rightarrow>
                            \<lparr>reply = Next (req\<lparr>user := Some payload\<rparr>),
                             console = [ConsoleLogSub ''[MCP] Token validated:'' (sub payload)],
                             server_after = srv\<rparr>
                        | Inl error \<Rightarrow>
                            \<lparr>reply = Respond 401 (ErrorBody ''Invalid token''),
                             console = [ConsoleError ''[MCP] Token validation failed:'' error],
                             server_after = srv\<rparr>))))"

text \<open>
  Successive requests through the gate of one server process, each validation starting
  from the module state the one before left; the replies in order and the last state.
\<close>

fun validate_all ::
  "verifier \<Rightarrow> process_env \<Rightarrow> server \<Rightarrow> request list \<Rightarrow> reply list \<times> server" where
  "validate_all jwtVerify env srv [] = ([], srv)"
| "validate_all jwtVerify env srv (req # reqs) =
     (let r = validateToken jwtVerify env srv req;
          (rs, srv') = validate_all jwtVerify env (server_after r) reqs
      in (reply r # rs, srv'))"

subsection \<open>The library's verification\<close>

text \<open>
  What a compact JWS decodes to: the key id of its header, the key that made its
  signature, and its claim set. A signature verifies under a published key exactly when
  that key is the one that made it.
\<close>

record jws =
  kid :: string
  signed_by :: string
  claims :: jwt_payload

text \<open>
  The world at the moment of a validation: the clock (seconds), which strings are compact
  JWS and what they decode to, and the keys (key id and key) that each address publishes;
  an address that is not listed cannot be fetched.
\<close>

record world =
  now :: nat
  tokens :: "(string \<times> jws) list"
  key_sets :: "(string \<times> (string \<times> string) list) list"

text \<open>
  Modelled from the spec: the claim checks of \<open>jwtVerify\<close> of the \<open>jose\<close> library,
  which is not under \<open>src/\<close>. The spec names the checks (issuer, audience, expiry); the
  library asks for the claims \<open>iss\<close> and \<open>aud\<close> to be present when the options are
  given, compares each with its option only when the option is a non-empty string, and
  compares \<open>nbf\<close> and \<open>exp\<close> with the clock.
\<close>

definition jwtClaimsSet :: "nat \<Rightarrow> jwt_payload \<Rightarrow> verify_options \<Rightarrow> verify_error + jwt_payload" where
  "jwtClaimsSet t payload opts =
     (case iss payload of
        None \<Rightarrow> Inl (JWTClaimValidationFailed ''iss'')
      | Some i \<Rightarrow>
          (case aud payload of
             None \<Rightarrow> Inl (JWTClaimValidationFailed ''aud'')
           | Some as \<Rightarrow>
               if issuer opts \<noteq> [] \<and> i \<noteq> issuer opts
               then Inl (JWTClaimValidationFailed ''iss'')
               else if audience opts \<noteq> [] \<and> audience opts \<notin> set as
               then Inl (JWTClaimValidationFailed ''aud'')
               else if (case nbf payload of None \<Rightarrow> False | Some n \<Rightarrow> t < n)
               then Inl (JWTClaimValidationFailed ''nbf'')
               else if (case exp payload of None \<Rightarrow> False | Some e \<Rightarrow> e \<le> t)
               then Inl JWTExpired
               else Inr payload))"

text \<open>
  Modelled from the spec: \<open>jwtVerify\<close> of the \<open>jose\<close> library, which is not under
  \<open>src/\<close>: the token is decoded, the keys are fetched from the resolver's address, the
  signature is verified against the published key with the token's key id, and then the
  claims are checked.
\<close>

definition jose_jwtVerify :: "world \<Rightarrow> verifier" where
  "jose_jwtVerify w token keys opts =
     (case map_of (tokens w) token of
        None \<Rightarrow> Inl JWSInvalid
      | Some t \<Rightarrow>
          (case keys of
             RemoteJWKSet u \<Rightarrow>
               (case map_of (key_sets w) u of
                  None \<Rightarrow> Inl JWKSFetchFailed
                | Some published \<Rightarrow>
                    (case map_of published (kid t) of
                       None \<Rightarrow> Inl JWKSNoMatchingKey
                     | Some k \<Rightarrow>
                         if k = signed_by t then jwtClaimsSet (now w) (claims t) opts
                         else Inl JWSSignatureVerificationFailed))))"

text \<open>
  The terms of the properties. A token is correctly signed for an address when the
  address publishes, under the token's key id, the key that made its signature; its
  audience matches \<open>a\<close> when \<open>a\<close> is among its \<open>aud\<close> values; it is in its period of
  validity at \<open>t\<close> when \<open>t\<close> is not before its \<open>nbf\<close> and is before its \<open>exp\<close>.
\<close>

definition correctly_signed :: "world \<Rightarrow> string \<Rightarrow> jws \<Rightarrow> bool" where
  "correctly_signed w u t =
     (case map_of (key_sets w) u of
        None \<Rightarrow> False
      | Some published \<Rightarrow> map_of published (kid t) = Some (signed_by t))"

definition has_audience :: "string \<Rightarrow> jwt_payload \<Rightarrow> bool" where
  "has_audience a payload = (case aud payload of None \<Rightarrow> False | Some as \<Rightarrow> a \<in> set as)"


text \<open>The claim set a verification accepted, if it accepted.\<close>

definition accepted :: "verify_error + jwt_payload \<Rightarrow> jwt_payload option" where
  "accepted r = (case r of Inl e \<Rightarrow> None | Inr payload \<Rightarrow> Some payload)"


subsection \<open>Verifiers, environments and requests to run the gate on\<close>

definition reject_signature :: verifier where
  "reject_signature token keys opts = Inl JWSSignatureVerificationFailed"

definition keys_unreachable :: verifier where
  "keys_unreachable token keys opts = Inl JWKSFetchFailed"

text \<open>A verifier that reaches one key address only, and there answers as \<open>v\<close> does.\<close>

definition reaching_only :: "string \<Rightarrow> verifier \<Rightarrow> verifier" where
  "reaching_only u v token keys opts =
     (if keys = RemoteJWKSet u then v token keys opts else Inl JWKSFetchFailed)"

definition production :: process_env where
  "production = [(''NODE_ENV'', ''production'')]"

definition development :: process_env where
  "development = [(''NODE_ENV'', ''development'')]"

definition anonymous :: request where
  "anonymous = \<lparr>authorization = None, user = None\<rparr>"

definition bearing :: "string \<Rightarrow> request" where
  "bearing h = \<lparr>authorization = Some h, user = None\<rparr>"

definition https_url :: "string \<Rightarrow> bool" where
  "https_url u = startsWith u ''https://''"

definition unconfigured :: server where
  "unconfigured = \<lparr>OKTA_ISSUER = [], OKTA_AUDIENCE = [], jwks = None\<rparr>"

definition configured :: server where
  "configured =
     \<lparr>OKTA_ISSUER = ''https://idp.example/oauth2/default'',
      OKTA_AUDIENCE = ''api://progear'',
      jwks = Some (RemoteJWKSet ''https://idp.example/oauth2/default/v1/keys'')\<rparr>"

text \<open>
  A verifier over a table of issued tokens, each with the address of the key set that
  signed it and its claims: it checks that the token is known, then the signature, then
  the issuer, then the audience.
\<close>

definition table_verifier :: "(string \<times> string \<times> jwt_payload) list \<Rightarrow> verifier" where
  "table_verifier issued token keys opts =
     (case map_of issued token of
        None \<Rightarrow> Inl JWSInvalid
      | Some (signer, payload) \<Rightarrow>
          if keys = RemoteJWKSet signer then
            (if iss payload = Some (issuer opts) then
               (if has_audience (audience opts) payload then Inr payload
                else Inl (JWTClaimValidationFailed ''aud''))
             else Inl (JWTClaimValidationFailed ''iss''))
          else Inl JWSSignatureVerificationFailed)"

definition alice :: jwt_payload where
  "alice = \<lparr>iss = Some ''https://idp.example/oauth2/default'', sub = Some ''alice'',
            aud = Some [''api://progear''], nbf = None, exp = Some 1900000000\<rparr>"

definition bob :: jwt_payload where
  "bob = \<lparr>iss = Some ''https://idp.example/oauth2/default'', sub = Some ''bob'',
          aud = Some [''api://other''], nbf = None, exp = Some 1900000000\<rparr>"

definition issued_tokens :: "(string \<times> string \<times> jwt_payload) list" where
  "issued_tokens =
     [(''eyJh.alice.sig'', ''https://idp.example/oauth2/default/v1/keys'', alice),
      (''eyJh.bob.sig'', ''https://idp.example/oauth2/default/v1/keys'', bob),
      (''eyJh.mallory.sig'', ''https://evil.example/v1/keys'', alice)]"

text \<open>
  A world at time \<open>t\<close>: the identity provider publishes one key; Alice's and Bob's
  tokens are signed with it, Mallory's copy of Alice's claims is signed with another key.
\<close>

definition world_at :: "nat \<Rightarrow> world" where
  "world_at t =
     \<lparr>now = t,
      tokens =
        [(''eyJh.alice.sig'', \<lparr>kid = ''k1'', signed_by = ''idp-key'', claims = alice\<rparr>),
         (''eyJh.bob.sig'', \<lparr>kid = ''k1'', signed_by = ''idp-key'', claims = bob\<rparr>),
         (''eyJh.mallory.sig'', \<lparr>kid = ''k1'', signed_by = ''mallory-key'', claims = alice\<rparr>)],
      key_sets =
        [(''https://idp.example/oauth2/default/v1/keys'', [(''k1'', ''idp-key'')])]\<rparr>"

definition configured_without_audience :: server where
  "configured_without_audience =
     \<lparr>OKTA_ISSUER = ''https://idp.example/oauth2/default'',
      OKTA_AUDIENCE = [],
      jwks = Some (RemoteJWKSet ''https://idp.example/oauth2/default/v1/keys'')\<rparr>"

section \<open>Facts about the string operations\<close>

lemma split_not_Nil: "split xs c \<noteq> []"
  by (induction xs) (auto split: list.splits)

lemma split_at_first: "c \<notin> set p \<Longrightarrow> split (p @ c # rest) c = p # split rest c"
  by (induction p) (auto split: list.splits)

lemma hd_split: "hd (split xs c) = takeWhile (\<lambda>x. x \<noteq> c) xs"
  by (induction xs) (auto split: list.splits simp: split_not_Nil)

lemma startsWith_iff: "startsWith s p \<longleftrightarrow> (\<exists>r. s = p @ r)"
  unfolding startsWith_def
  by (metis append_eq_conv_conj append_take_drop_id)

text \<open>
  The token of a header \<open>Bearer \<dots>\<close> is what stands between the first space and the
  next one (or the end).
\<close>

lemma bearer_token:
  "index (split (''Bearer '' @ rest) CHR '' '') 1 =
     Some (takeWhile (\<lambda>x. x \<noteq> CHR '' '') rest)"
proof -
  have "split (''Bearer'' @ CHR '' '' # rest) CHR '' '' = ''Bearer'' # split rest CHR '' ''"
    by (rule split_at_first) simp
  moreover obtain w ws where "split rest CHR '' '' = w # ws"
    using split_not_Nil by (cases "split rest CHR '' ''") auto
  ultimately show ?thesis
    using hd_split [of rest "CHR '' ''"] by simp
qed

lemma takeWhile_no_space: "CHR '' '' \<notin> set token \<Longrightarrow> takeWhile (\<lambda>x. x \<noteq> CHR '' '') token = token"
  by (induction token) auto

lemma demo_prefix_survives:
  "startsWith token ''demo-token'' \<Longrightarrow>
     startsWith (takeWhile (\<lambda>x. x \<noteq> CHR '' '') token) ''demo-token''"
  by (auto simp: startsWith_iff)

section \<open>The library's verification, check by check\<close>


lemma jwtClaimsSet_wrong_audience:
  assumes "audience opts \<noteq> []"
    and "\<not> has_audience (audience opts) payload"
  shows "accepted (jwtClaimsSet t payload opts) = None"
  using assms
  by (auto simp: jwtClaimsSet_def has_audience_def accepted_def split: option.splits)



lemma jose_jwtVerify_signed:
  assumes "map_of (tokens w) token = Some t"
    and "correctly_signed w u t"
  shows "jose_jwtVerify w token (RemoteJWKSet u) opts = jwtClaimsSet (now w) (claims t) opts"
  using assms
  by (auto simp: jose_jwtVerify_def correctly_signed_def split: option.splits)

lemma jose_jwtVerify_badly_signed:
  assumes "map_of (tokens w) token = Some t"
    and "\<not> correctly_signed w u t"
  shows "accepted (jose_jwtVerify w token (RemoteJWKSet u) opts) = None"
  using assms
  by (auto simp: jose_jwtVerify_def correctly_signed_def accepted_def split: option.splits)


section \<open>The gate, branch by branch\<close>

text \<open>No header, an empty one, or one that does not start with \<open>Bearer \<close>.\<close>

lemma validateToken_no_bearer:
  assumes "authorization req = None \<or> (\<exists>h. authorization req = Some h \<and> \<not> startsWith h ''Bearer '')"
  shows "validateToken jwtVerify env srv req =
           (if map_of env ''NODE_ENV'' = Some ''development''
            then \<lparr>reply = Next req,
                  console = [ConsoleLog ''[MCP] Demo mode - skipping token validation''],
                  server_after = srv\<rparr>
            else \<lparr>reply = Respond 401 (ErrorBody ''Missing authorization header''),
                  console = [], server_after = srv\<rparr>)"
  using assms by (auto simp: validateToken_def)

text \<open>A header \<open>Bearer \<dots>\<close>: the three ways on, by the token.\<close>

lemma validateToken_bearer:
  assumes "authorization req = Some (''Bearer '' @ rest)"
  shows "validateToken jwtVerify env srv req =
           (let token = takeWhile (\<lambda>x. x \<noteq> CHR '' '') rest
            in if startsWith token ''demo-token''
               then \<lparr>reply = Next req,
                     console = [ConsoleLog ''[MCP] Demo token accepted''],
                     server_after = srv\<rparr>
               else
                 (case jwks srv of
                    None \<Rightarrow>
                      \<lparr>reply = Next req,
                       console = [ConsoleLog ''[MCP] No JWKS configured, accepting token''],
                       server_after = srv\<rparr>
                  | Some keys \<Rightarrow>
                      (case jwtVerify token keys
                              \<lparr>issuer = OKTA_ISSUER srv, audience = OKTA_AUDIENCE srv\<rparr> of
                         Inr payload \<Rightarrow>
                           \<lparr>reply = Next (req\<lparr>user := Some payload\<rparr>),
                            console = [ConsoleLogSub ''[MCP] Token validated:'' (sub payload)],
                            server_after = srv\<rparr>
                       | Inl error \<Rightarrow>
                           \<lparr>reply = Respond 401 (ErrorBody ''Invalid token''),
                            console = [ConsoleError ''[MCP] Token validation failed:'' error],
                            server_after = srv\<rparr>)))"
proof -
  have "startsWith (''Bearer '' @ rest) ''Bearer ''"
    by (simp add: startsWith_def)
  moreover have "''Bearer '' @ rest \<noteq> []"
    by simp
  ultimately show ?thesis
    using assms bearer_token [of rest]
    unfolding validateToken_def Let_def
    by (simp del: index.simps split.simps append.simps)
qed

text \<open>A header \<open>Bearer \<close> and a token with no space, not a demo token.\<close>

lemma validateToken_token:
  assumes "authorization req = Some (''Bearer '' @ token)"
    and "CHR '' '' \<notin> set token"
    and "\<not> startsWith token ''demo-token''"
  shows "validateToken jwtVerify env srv req =
           (case jwks srv of
              None \<Rightarrow>
                \<lparr>reply = Next req,
                 console = [ConsoleLog ''[MCP] No JWKS configured, accepting token''],
                 server_after = srv\<rparr>
            | Some keys \<Rightarrow>
                (case jwtVerify token keys
                        \<lparr>issuer = OKTA_ISSUER srv, audience = OKTA_AUDIENCE srv\<rparr> of
                   Inr payload \<Rightarrow>
                     \<lparr>reply = Next (req\<lparr>user := Some payload\<rparr>),
                      console = [ConsoleLogSub ''[MCP] Token validated:'' (sub payload)],
                      server_after = srv\<rparr>
                 | Inl error \<Rightarrow>
                     \<lparr>reply = Respond 401 (ErrorBody ''Invalid token''),
                      console = [ConsoleError ''[MCP] Token validation failed:'' error],
                      server_after = srv\<rparr>))"
proof -
  have t: "takeWhile (\<lambda>x. x \<noteq> CHR '' '') token = token"
    by (rule takeWhile_no_space [OF assms(2)])
  show ?thesis
    unfolding validateToken_bearer [OF assms(1)] Let_def t
    using assms(3) by simp
qed

lemma validateToken_server_after: "server_after (validateToken jwtVerify env srv req) = srv"
  by (simp add: validateToken_def Let_def split: option.splits sum.splits)

lemma validate_all_server: "snd (validate_all jwtVerify env srv reqs) = srv"
  by (induction reqs arbitrary: srv)
     (simp_all add: Let_def split_beta validateToken_server_after)

lemma validate_all_replies:
  "fst (validate_all jwtVerify env srv reqs) =
     map (\<lambda>req. reply (validateToken jwtVerify env srv req)) reqs"
  by (induction reqs arbitrary: srv)
     (simp_all add: Let_def split_beta validateToken_server_after)

text \<open>
  The gate always decides: the token of a header that starts with \<open>Bearer \<close> is
  defined, so the method call on it does not throw.
\<close>

lemma validateToken_decides: "reply (validateToken jwtVerify env srv req) \<noteq> TypeError"
proof (cases "authorization req")
  case None
  then show ?thesis
    by (simp add: validateToken_no_bearer)
next
  case (Some h)
  show ?thesis
  proof (cases "startsWith h ''Bearer ''")
    case False
    with Some show ?thesis
      by (simp add: validateToken_no_bearer)
  next
    case True
    then obtain rest where "h = ''Bearer '' @ rest"
      unfolding startsWith_iff by blast
    with Some have "authorization req = Some (''Bearer '' @ rest)"
      by simp
    then show ?thesis
      by (simp add: validateToken_bearer Let_def split: option.splits sum.splits
               del: append.simps)
  qed
qed


text \<open>A token the verifier does not accept, when a key set is configured.\<close>

lemma validateToken_not_accepted:
  assumes "jwks srv = Some keys"
    and "authorization req = Some (''Bearer '' @ token)"
    and "CHR '' '' \<notin> set token"
    and "\<not> startsWith token ''demo-token''"
    and "accepted (jwtVerify token keys
            \<lparr>issuer = OKTA_ISSUER srv, audience = OKTA_AUDIENCE srv\<rparr>) = None"
  shows "reply (validateToken jwtVerify env srv req) =
           Respond 401 (ErrorBody ''Invalid token'')"
  using assms(1,5)
  by (simp add: validateToken_token [OF assms(2,3,4)] accepted_def split: sum.splits)


text \<open>The gate consults the verifier at the module's key set only.\<close>

lemma validateToken_verifier_at_jwks:
  assumes "\<And>token keys opts. jwks srv = Some keys \<Longrightarrow>
             jwtVerify' token keys opts = jwtVerify token keys opts"
  shows "validateToken jwtVerify' env srv req = validateToken jwtVerify env srv req"
  using assms by (simp add: validateToken_def Let_def split: option.splits)

section \<open>Properties of the gate\<close>

text \<open>
  C5. A request with no Authorization header, when NODE_ENV is not
  \<open>development\<close>, is answered with status 401 and the JSON body
  \<open>{ error: 'Missing authorization header' }\<close>; \<open>next\<close> is not called.
\<close>

theorem missing_header_rejected:
  assumes "authorization req = None"
    and "map_of env ''NODE_ENV'' \<noteq> Some ''development''"
  shows "reply (validateToken jwtVerify env srv req) =
           Respond 401 (ErrorBody ''Missing authorization header'')"
  using assms by (simp add: validateToken_def)

theorem missing_header_rejected_witness:
  "reply (validateToken reject_signature production
            configured anonymous) =
     Respond 401 (ErrorBody ''Missing authorization header'')"
  using missing_header_rejected [of anonymous production reject_signature configured]
  by (simp add: anonymous_def production_def)

text \<open>
  C6. A request with no Authorization header, when NODE_ENV is \<open>development\<close>, is
  admitted: \<open>next\<close> is called on the request as it came, so the gate attaches no
  identity and a request that came without \<open>user\<close> reaches the handler without it.
\<close>

theorem missing_header_admitted_in_development:
  assumes "authorization req = None"
    and "map_of env ''NODE_ENV'' = Some ''development''"
  shows "reply (validateToken jwtVerify env srv req) = Next req"
  using assms by (simp add: validateToken_def)

theorem missing_header_admitted_in_development_witness:
  "reply (validateToken reject_signature development configured anonymous) =
     Next \<lparr>authorization = None, user = None\<rparr>"
  using missing_header_admitted_in_development
          [of anonymous development reject_signature configured]
  by (simp add: anonymous_def development_def)

text \<open>
  C1. When no issuer is configured (OKTA_ISSUER unset or empty), the module loads with no
  key set, and the gate admits every request whose header starts with \<open>Bearer \<close>,
  whatever the token and whatever the verifier would say of it: \<open>next\<close> is called on
  the request as it came.
\<close>

theorem no_issuer_admits_every_bearer:
  assumes "env_or_empty load_env ''OKTA_ISSUER'' = []"
    and "authorization req = Some h"
    and "startsWith h ''Bearer ''"
  shows "\<exists>srv. module_init url_ok load_env = Inr srv \<and> jwks srv = None \<and>
           reply (validateToken jwtVerify env srv req) = Next req"
proof -
  obtain rest where h: "h = ''Bearer '' @ rest"
    using assms(3) unfolding startsWith_iff by blast
  let ?srv = "\<lparr>OKTA_ISSUER = [],
               OKTA_AUDIENCE = env_or_empty load_env ''OKTA_CUSTOM_AUTH_SERVER_AUDIENCE'',
               jwks = None\<rparr>"
  have "module_init url_ok load_env = Inr ?srv"
    using assms(1) by (simp add: module_init_def)
  moreover have "reply (validateToken jwtVerify env ?srv req) = Next req"
    using assms(2) unfolding h
    by (simp add: validateToken_bearer Let_def del: append.simps)
  ultimately show ?thesis by simp
qed

theorem no_issuer_admits_every_bearer_witness:
  "module_init https_url [(''NODE_ENV'', ''production'')] = Inr unconfigured \<and>
   reply (validateToken reject_signature production unconfigured (bearing ''Bearer garbage'')) =
     Next (bearing ''Bearer garbage'')"
proof -
  have "startsWith ''Bearer garbage'' ''Bearer ''"
    by (simp add: startsWith_def)
  then have "\<exists>srv. module_init https_url [(''NODE_ENV'', ''production'')] = Inr srv \<and>
      jwks srv = None \<and>
      reply (validateToken reject_signature production srv (bearing ''Bearer garbage'')) =
        Next (bearing ''Bearer garbage'')"
    using no_issuer_admits_every_bearer
            [of "[(''NODE_ENV'', ''production'')]" "bearing ''Bearer garbage''"
                "''Bearer garbage''" https_url reject_signature production]
    by (simp add: env_or_empty_def bearing_def)
  moreover have "module_init https_url [(''NODE_ENV'', ''production'')] = Inr unconfigured"
    by (simp add: module_init_def env_or_empty_def unconfigured_def)
  ultimately show ?thesis by auto
qed

text \<open>
  C2. A request whose Bearer token starts with the literal \<open>demo-token\<close> is admitted
  whatever the verifier would say of the token, under every configuration (the code has no
  switch for this bypass): \<open>next\<close> is called on the request as it came, no claims are
  attached, and the verifier is not consulted.
\<close>

theorem demo_token_admitted:
  assumes "authorization req = Some (''Bearer '' @ token)"
    and "startsWith token ''demo-token''"
  shows "validateToken jwtVerify env srv req =
           \<lparr>reply = Next req, console = [ConsoleLog ''[MCP] Demo token accepted''],
            server_after = srv\<rparr>"
  using assms(1) demo_prefix_survives [OF assms(2)]
  by (simp add: validateToken_bearer Let_def del: append.simps)

theorem demo_token_admitted_witness:
  "validateToken reject_signature production configured (bearing ''Bearer demo-token-42'') =
     \<lparr>reply = Next (bearing ''Bearer demo-token-42''),
      console = [ConsoleLog ''[MCP] Demo token accepted''],
      server_after = configured\<rparr>"
proof -
  have "startsWith ''demo-token-42'' ''demo-token''"
    by (simp add: startsWith_def)
  then show ?thesis
    using demo_token_admitted
            [of "bearing ''Bearer demo-token-42''" "''demo-token-42''"
                reject_signature production configured]
    by (simp add: bearing_def)
qed

text \<open>
  C3, as the code has it. When a key set is configured (OKTA_ISSUER is set), a request
  bearing a well-formed token that is not correctly signed for the configured key address
  is answered with status 401 and the body \<open>{ error: 'Invalid token' }\<close>, and \<open>next\<close>
  is not called; and so is, when an audience is configured as well, a request bearing a
  correctly signed token whose audience does not match it. (The token has no space in it
  and does not start with \<open>demo-token\<close>, as no signed token does.)
\<close>

theorem badly_signed_or_wrong_audience_rejected:
  assumes "jwks srv = Some (RemoteJWKSet u)"
    and "authorization req = Some (''Bearer '' @ token)"
    and "CHR '' '' \<notin> set token"
    and "\<not> startsWith token ''demo-token''"
    and "map_of (tokens w) token = Some t"
    and "\<not> correctly_signed w u t \<or>
         (correctly_signed w u t \<and> OKTA_AUDIENCE srv \<noteq> [] \<and>
          \<not> has_audience (OKTA_AUDIENCE srv) (claims t))"
  shows "reply (validateToken (jose_jwtVerify w) env srv req) =
           Respond 401 (ErrorBody ''Invalid token'') \<and>
         (\<forall>r. reply (validateToken (jose_jwtVerify w) env srv req) \<noteq> Next r)"
proof -
  let ?opts = "\<lparr>issuer = OKTA_ISSUER srv, audience = OKTA_AUDIENCE srv\<rparr>"
  have "accepted (jose_jwtVerify w token (RemoteJWKSet u) ?opts) = None"
  proof (cases "correctly_signed w u t")
    case False
    then show ?thesis
      by (rule jose_jwtVerify_badly_signed [OF assms(5)])
  next
    case True
    with assms(6) have "audience ?opts \<noteq> []" and "\<not> has_audience (audience ?opts) (claims t)"
      by simp_all
    then have "accepted (jwtClaimsSet (now w) (claims t) ?opts) = None"
      by (rule jwtClaimsSet_wrong_audience)
    then show ?thesis
      by (simp add: jose_jwtVerify_signed [OF assms(5) True])
  qed
  then have "reply (validateToken (jose_jwtVerify w) env srv req) =
               Respond 401 (ErrorBody ''Invalid token'')"
    by (rule validateToken_not_accepted [OF assms(1,2,3,4)])
  then show ?thesis
    by simp
qed

theorem badly_signed_or_wrong_audience_rejected_witness:
  "reply (validateToken (jose_jwtVerify (world_at 1800000000)) production configured
            (bearing ''Bearer eyJh.mallory.sig'')) =
     Respond 401 (ErrorBody ''Invalid token'') \<and>
   reply (validateToken (jose_jwtVerify (world_at 1800000000)) production configured
            (bearing ''Bearer eyJh.bob.sig'')) =
     Respond 401 (ErrorBody ''Invalid token'')"
proof -
  let ?u = "''https://idp.example/oauth2/default/v1/keys''"
  let ?w = "world_at 1800000000"
  let ?mallory = "\<lparr>kid = ''k1'', signed_by = ''mallory-key'', claims = alice\<rparr>"
  let ?bob = "\<lparr>kid = ''k1'', signed_by = ''idp-key'', claims = bob\<rparr>"
  have k: "jwks configured = Some (RemoteJWKSet ?u)"
    by (simp add: configured_def)
  have m: "map_of (tokens ?w) ''eyJh.mallory.sig'' = Some ?mallory"
    by (simp add: world_at_def)
  have b: "map_of (tokens ?w) ''eyJh.bob.sig'' = Some ?bob"
    by (simp add: world_at_def)
  have ms: "\<not> correctly_signed ?w ?u ?mallory"
    by (simp add: correctly_signed_def world_at_def)
  have bs: "correctly_signed ?w ?u ?bob \<and> OKTA_AUDIENCE configured \<noteq> [] \<and>
            \<not> has_audience (OKTA_AUDIENCE configured) (claims ?bob)"
    by (simp add: correctly_signed_def world_at_def configured_def has_audience_def bob_def)
  have "reply (validateToken (jose_jwtVerify ?w) production configured
                 (bearing ''Bearer eyJh.mallory.sig'')) =
          Respond 401 (ErrorBody ''Invalid token'')"
    using badly_signed_or_wrong_audience_rejected
            [OF k, of "bearing ''Bearer eyJh.mallory.sig''" "''eyJh.mallory.sig''"
                ?w ?mallory production]
          m ms
    by (simp add: bearing_def startsWith_def)
  moreover have "reply (validateToken (jose_jwtVerify ?w) production configured
                 (bearing ''Bearer eyJh.bob.sig'')) =
          Respond 401 (ErrorBody ''Invalid token'')"
    using badly_signed_or_wrong_audience_rejected
            [OF k, of "bearing ''Bearer eyJh.bob.sig''" "''eyJh.bob.sig''"
                ?w ?bob production]
          b bs
    by (simp add: bearing_def startsWith_def)
  ultimately show ?thesis by simp
qed

text \<open>
  C3 as stated fails twice. With no issuer configured the module has no key set, and a
  well-formed token signed with a key the identity provider does not publish is admitted.
  With an issuer configured and the audience variable unset, the gate passes the empty
  audience, no audience comparison is made, and a correctly signed token for another
  audience is admitted.
\<close>

theorem badly_signed_or_wrong_audience_admitted:
  "module_init https_url [] = Inr unconfigured \<and>
   map_of (tokens (world_at 1800000000)) ''eyJh.mallory.sig'' =
     Some \<lparr>kid = ''k1'', signed_by = ''mallory-key'', claims = alice\<rparr> \<and>
   \<not> correctly_signed (world_at 1800000000) ''https://idp.example/oauth2/default/v1/keys''
       \<lparr>kid = ''k1'', signed_by = ''mallory-key'', claims = alice\<rparr> \<and>
   reply (validateToken (jose_jwtVerify (world_at 1800000000)) production unconfigured
            (bearing ''Bearer eyJh.mallory.sig'')) =
     Next (bearing ''Bearer eyJh.mallory.sig'') \<and>
   module_init https_url [(''OKTA_ISSUER'', ''https://idp.example/oauth2/default'')] =
     Inr configured_without_audience \<and>
   map_of (tokens (world_at 1800000000)) ''eyJh.bob.sig'' =
     Some \<lparr>kid = ''k1'', signed_by = ''idp-key'', claims = bob\<rparr> \<and>
   correctly_signed (world_at 1800000000) ''https://idp.example/oauth2/default/v1/keys''
       \<lparr>kid = ''k1'', signed_by = ''idp-key'', claims = bob\<rparr> \<and>
   \<not> has_audience (OKTA_AUDIENCE configured_without_audience) bob \<and>
   \<not> has_audience ''api://progear'' bob \<and>
   reply (validateToken (jose_jwtVerify (world_at 1800000000)) production
            configured_without_audience (bearing ''Bearer eyJh.bob.sig'')) =
     Next \<lparr>authorization = Some ''Bearer eyJh.bob.sig'', user = Some bob\<rparr>"
proof -
  have "reply (validateToken (jose_jwtVerify (world_at 1800000000)) production unconfigured
                 (bearing ''Bearer eyJh.mallory.sig'')) =
          Next (bearing ''Bearer eyJh.mallory.sig'')"
    using validateToken_bearer
            [of "bearing ''Bearer eyJh.mallory.sig''" "''eyJh.mallory.sig''"
                "jose_jwtVerify (world_at 1800000000)" production unconfigured]
    by (simp add: bearing_def unconfigured_def startsWith_def)
  moreover have "reply (validateToken (jose_jwtVerify (world_at 1800000000)) production
                 configured_without_audience (bearing ''Bearer eyJh.bob.sig'')) =
          Next \<lparr>authorization = Some ''Bearer eyJh.bob.sig'', user = Some bob\<rparr>"
    using validateToken_bearer
            [of "bearing ''Bearer eyJh.bob.sig''" "''eyJh.bob.sig''"
                "jose_jwtVerify (world_at 1800000000)" production configured_without_audience]
    by (simp add: bearing_def configured_without_audience_def startsWith_def
          jose_jwtVerify_def jwtClaimsSet_def world_at_def bob_def)
  moreover have "module_init https_url [] = Inr unconfigured"
    by (simp add: module_init_def env_or_empty_def unconfigured_def)
  moreover have "module_init https_url
        [(''OKTA_ISSUER'', ''https://idp.example/oauth2/default'')] =
      Inr configured_without_audience"
    by (simp add: module_init_def env_or_empty_def configured_without_audience_def
          https_url_def startsWith_def)
  ultimately show ?thesis
    by (simp add: correctly_signed_def has_audience_def world_at_def bob_def
          configured_without_audience_def)
qed




text \<open>
  C7. Whatever error the verifier raises for the token the gate hands it (a bad
  signature, a wrong issuer or audience, an expired token, a failure to fetch the keys),
  the reply is the same: status 401 with the body \<open>{ error: 'Invalid token' }\<close>. Two
  verifiers that fail on the token with different errors give equal replies; the error
  reaches the server's console only.
\<close>

theorem verification_errors_one_reply:
  assumes "jwks srv = Some keys"
    and "authorization req = Some h"
    and "startsWith h ''Bearer ''"
    and "index (split h CHR '' '') 1 = Some token"
    and "\<not> startsWith token ''demo-token''"
    and "jwtVerify token keys \<lparr>issuer = OKTA_ISSUER srv, audience = OKTA_AUDIENCE srv\<rparr> =
           Inl error"
    and "jwtVerify' token keys \<lparr>issuer = OKTA_ISSUER srv, audience = OKTA_AUDIENCE srv\<rparr> =
           Inl error'"
  shows "reply (validateToken jwtVerify env srv req) = Respond 401 (ErrorBody ''Invalid token'') \<and>
         reply (validateToken jwtVerify' env srv req) = reply (validateToken jwtVerify env srv req)"
proof -
  obtain rest where h: "h = ''Bearer '' @ rest"
    using assms(3) unfolding startsWith_iff by blast
  have t: "takeWhile (\<lambda>x. x \<noteq> CHR '' '') rest = token"
    using assms(4) bearer_token [of rest] unfolding h by simp
  have r: "authorization req = Some (''Bearer '' @ rest)"
    using assms(2) unfolding h .
  show ?thesis
    unfolding validateToken_bearer [OF r] Let_def t
    using assms(1,5,6,7) by simp
qed

theorem verification_errors_one_reply_witness:
  "reply (validateToken (table_verifier issued_tokens) production configured
            (bearing ''Bearer eyJh.bob.sig extra'')) =
     Respond 401 (ErrorBody ''Invalid token'') \<and>
   reply (validateToken keys_unreachable production configured
            (bearing ''Bearer eyJh.bob.sig extra'')) =
     reply (validateToken (table_verifier issued_tokens) production configured
            (bearing ''Bearer eyJh.bob.sig extra''))"
proof -
  let ?keys = "RemoteJWKSet ''https://idp.example/oauth2/default/v1/keys''"
  let ?opts = "\<lparr>issuer = OKTA_ISSUER configured, audience = OKTA_AUDIENCE configured\<rparr>"
  have b: "table_verifier issued_tokens ''eyJh.bob.sig'' ?keys ?opts =
             Inl (JWTClaimValidationFailed ''aud'')"
    by (simp add: table_verifier_def issued_tokens_def configured_def bob_def
          has_audience_def)
  have u: "keys_unreachable ''eyJh.bob.sig'' ?keys ?opts = Inl JWKSFetchFailed"
    by (simp add: keys_unreachable_def)
  have k: "jwks configured = Some ?keys"
    by (simp add: configured_def)
  have i: "index (split ''Bearer eyJh.bob.sig extra'' CHR '' '') 1 = Some ''eyJh.bob.sig''"
    by simp
  show ?thesis
    using verification_errors_one_reply
            [of configured ?keys "bearing ''Bearer eyJh.bob.sig extra''"
                "''Bearer eyJh.bob.sig extra''" "''eyJh.bob.sig''"
                "table_verifier issued_tokens" "JWTClaimValidationFailed ''aud''"
                keys_unreachable JWKSFetchFailed production]
          k b u i
    by (simp add: bearing_def startsWith_def)
qed

text \<open>
  C8, as the code has it. The key-set resolver is created when the module loads, not by
  the gate: after loading, \<open>jwks\<close> is the resolver bound to the issuer followed by
  \<open>/v1/keys\<close> when an issuer is configured, and nothing otherwise. Every validation
  leaves the module state as it was, so all validations use that one resolver: the
  replies depend on the verifier only through what it says at that resolver. (When the
  resolver fetches the keys is the library's matter and is not part of this statement.)
\<close>

theorem resolver_created_at_load_and_kept:
  assumes "module_init url_ok load_env = Inr srv"
  shows "jwks srv =
           (if env_or_empty load_env ''OKTA_ISSUER'' = [] then None
            else Some (RemoteJWKSet (env_or_empty load_env ''OKTA_ISSUER'' @ ''/v1/keys''))) \<and>
         snd (validate_all jwtVerify env srv reqs) = srv \<and>
         ((\<forall>token opts.
              jwtVerify' token (RemoteJWKSet (env_or_empty load_env ''OKTA_ISSUER'' @ ''/v1/keys'')) opts =
              jwtVerify token (RemoteJWKSet (env_or_empty load_env ''OKTA_ISSUER'' @ ''/v1/keys'')) opts) \<longrightarrow>
          fst (validate_all jwtVerify' env srv reqs) = fst (validate_all jwtVerify env srv reqs))"
proof -
  let ?keys = "RemoteJWKSet (env_or_empty load_env ''OKTA_ISSUER'' @ ''/v1/keys'')"
  have j: "jwks srv =
             (if env_or_empty load_env ''OKTA_ISSUER'' = [] then None else Some ?keys)"
    using assms by (auto simp: module_init_def Let_def split: if_splits)
  have "fst (validate_all jwtVerify' env srv reqs) = fst (validate_all jwtVerify env srv reqs)"
    if agree: "\<forall>token opts. jwtVerify' token ?keys opts = jwtVerify token ?keys opts"
  proof -
    have "validateToken jwtVerify' env srv req = validateToken jwtVerify env srv req" for req
    proof (rule validateToken_verifier_at_jwks)
      fix token keys opts
      assume "jwks srv = Some keys"
      with j have "keys = ?keys"
        by (simp split: if_splits)
      with agree show "jwtVerify' token keys opts = jwtVerify token keys opts"
        by simp
    qed
    then show ?thesis
      by (simp add: validate_all_replies)
  qed
  with j show ?thesis
    by (simp add: validate_all_server)
qed

theorem resolver_created_at_load_and_kept_witness:
  "module_init https_url
     [(''OKTA_ISSUER'', ''https://idp.example/oauth2/default''),
      (''OKTA_CUSTOM_AUTH_SERVER_AUDIENCE'', ''api://progear'')] = Inr configured \<and>
   jwks configured = Some (RemoteJWKSet ''https://idp.example/oauth2/default/v1/keys'') \<and>
   snd (validate_all (table_verifier issued_tokens) production configured
          [bearing ''Bearer eyJh.alice.sig'', anonymous, bearing ''Bearer eyJh.bob.sig'']) =
     configured \<and>
   fst (validate_all
          (reaching_only ''https://idp.example/oauth2/default/v1/keys''
             (table_verifier issued_tokens))
          production configured
          [bearing ''Bearer eyJh.alice.sig'', anonymous, bearing ''Bearer eyJh.bob.sig'']) =
   fst (validate_all (table_verifier issued_tokens) production configured
          [bearing ''Bearer eyJh.alice.sig'', anonymous, bearing ''Bearer eyJh.bob.sig''])"
proof -
  let ?env = "[(''OKTA_ISSUER'', ''https://idp.example/oauth2/default''),
               (''OKTA_CUSTOM_AUTH_SERVER_AUDIENCE'', ''api://progear'')]"
  have l: "module_init https_url ?env = Inr configured"
    by (simp add: module_init_def env_or_empty_def configured_def https_url_def startsWith_def)
  have e: "env_or_empty ?env ''OKTA_ISSUER'' @ ''/v1/keys'' =
             ''https://idp.example/oauth2/default/v1/keys''"
    by (simp add: env_or_empty_def)
  have n: "env_or_empty ?env ''OKTA_ISSUER'' \<noteq> []"
    by (simp add: env_or_empty_def)
  have a: "\<forall>token opts.
             reaching_only ''https://idp.example/oauth2/default/v1/keys''
               (table_verifier issued_tokens) token
               (RemoteJWKSet ''https://idp.example/oauth2/default/v1/keys'') opts =
             table_verifier issued_tokens token
               (RemoteJWKSet ''https://idp.example/oauth2/default/v1/keys'') opts"
    by (simp add: reaching_only_def)
  show ?thesis
    using l a n
      resolver_created_at_load_and_kept
        [OF l, of "table_verifier issued_tokens" production
            "[bearing ''Bearer eyJh.alice.sig'', anonymous, bearing ''Bearer eyJh.bob.sig'']"
            "reaching_only ''https://idp.example/oauth2/default/v1/keys''
               (table_verifier issued_tokens)"]
    unfolding e
    by (simp del: validate_all.simps)
qed

text \<open>
  C8 as stated fails: the resolver is there when the module has loaded, before any request
  has been validated; and where the module loaded without one, a validation does not
  create it.
\<close>

theorem resolver_exists_before_first_validation:
  "module_init https_url
     [(''OKTA_ISSUER'', ''https://idp.example/oauth2/default''),
      (''OKTA_CUSTOM_AUTH_SERVER_AUDIENCE'', ''api://progear'')] = Inr configured \<and>
   jwks configured = Some (RemoteJWKSet ''https://idp.example/oauth2/default/v1/keys'') \<and>
   validate_all (table_verifier issued_tokens) production configured [] = ([], configured) \<and>
   module_init https_url [] = Inr unconfigured \<and>
   jwks (server_after (validateToken (table_verifier issued_tokens) production unconfigured
                         (bearing ''Bearer eyJh.alice.sig''))) = None"
  by (simp add: module_init_def env_or_empty_def configured_def unconfigured_def
        https_url_def startsWith_def validateToken_server_after)




text \<open>
  C10. A header that is present but does not start with \<open>Bearer \<close> is treated as a
  missing one: the request is admitted as it came when NODE_ENV is \<open>development\<close> and
  answered with 401 and \<open>{ error: 'Missing authorization header' }\<close> otherwise, with
  the console lines of a request without the header. So a credential \<open>demo-token\<dots>\<close>
  sent without the scheme does not pass through the demo bypass.
\<close>

theorem header_without_bearer_is_missing:
  assumes "authorization req = Some h"
    and "\<not> startsWith h ''Bearer ''"
  shows "reply (validateToken jwtVerify env srv req) =
           (if map_of env ''NODE_ENV'' = Some ''development'' then Next req
            else Respond 401 (ErrorBody ''Missing authorization header'')) \<and>
         reply (validateToken jwtVerify env srv (req\<lparr>authorization := None\<rparr>)) =
           (if map_of env ''NODE_ENV'' = Some ''development''
            then Next (req\<lparr>authorization := None\<rparr>)
            else Respond 401 (ErrorBody ''Missing authorization header'')) \<and>
         console (validateToken jwtVerify env srv req) =
           console (validateToken jwtVerify env srv (req\<lparr>authorization := None\<rparr>))"
proof -
  have "authorization req = None \<or>
          (\<exists>h. authorization req = Some h \<and> \<not> startsWith h ''Bearer '')"
    using assms by blast
  moreover have "authorization (req\<lparr>authorization := None\<rparr>) = None \<or>
          (\<exists>h. authorization (req\<lparr>authorization := None\<rparr>) = Some h \<and> \<not> startsWith h ''Bearer '')"
    by simp
  ultimately show ?thesis
    by (simp add: validateToken_no_bearer)
qed

theorem header_without_bearer_is_missing_witness:
  "reply (validateToken (table_verifier issued_tokens) production configured
            (bearing ''demo-token-42'')) =
     Respond 401 (ErrorBody ''Missing authorization header'') \<and>
   reply (validateToken (table_verifier issued_tokens) development configured
            (bearing ''demo-token-42'')) =
     Next (bearing ''demo-token-42'') \<and>
   console (validateToken (table_verifier issued_tokens) development configured
            (bearing ''demo-token-42'')) =
     [ConsoleLog ''[MCP] Demo mode - skipping token validation'']"
proof -
  have n: "\<not> startsWith ''demo-token-42'' ''Bearer ''"
    by (simp add: startsWith_def)
  have a: "authorization (bearing ''demo-token-42'') = Some ''demo-token-42''"
    by (simp add: bearing_def)
  show ?thesis
    using header_without_bearer_is_missing
            [OF a n, of "table_verifier issued_tokens" production configured]
          header_without_bearer_is_missing
            [OF a n, of "table_verifier issued_tokens" development configured]
    by (simp add: production_def development_def validateToken_no_bearer)
qed

end
